theory Spec2Isabelle
  imports Complex_Main
begin

section \<open>Pattern detector\<close>

text \<open>
  The detectors of \<^verbatim>\<open>signal_bot_15m.py\<close> read the four prices of a candle, a dict with
  the keys \<^verbatim>\<open>open\<close>, \<^verbatim>\<open>high\<close>, \<^verbatim>\<open>low\<close>, \<^verbatim>\<open>close\<close>. The dict is a record here
  (the field names carry the prefix \<open>c_\<close>, since \<open>open\<close> is a constant of HOL). Prices
  are Python floats in the source; they are real numbers here, so that \<open>1.8\<close> and \<open>0.6\<close>
  are the exact thresholds and the arithmetic is exact.
\<close>

record candle =
  c_open :: real
  c_high :: real
  c_low :: real
  c_close :: real

definition is_hammer_candle :: "candle \<Rightarrow> bool" where
  "is_hammer_candle c =
     (let o' = c_open c; h = c_high c; l = c_low c; cl = c_close c;
          body = \<bar>cl - o'\<bar>
      in if body = 0 then False
         else (let lower = min o' cl - l;
                   upper = h - max o' cl
               in lower > body * 1.8 \<and> upper < body * 0.6))"

definition is_shooting_star_candle :: "candle \<Rightarrow> bool" where
  "is_shooting_star_candle c =
     (let o' = c_open c; h = c_high c; l = c_low c; cl = c_close c;
          body = \<bar>cl - o'\<bar>
      in if body = 0 then False
         else (let upper = h - max o' cl;
                   lower = min o' cl - l
               in upper > body * 1.8 \<and> lower < body * 0.6))"

section \<open>Scheduler: the next 15-minute boundary\<close>

text \<open>
  \<^verbatim>\<open>seconds_until_next_15min\<close> reads the clock (\<^verbatim>\<open>int(time.time())\<close>); the clock value
  is the argument here. Python's \<^verbatim>\<open>%\<close> on integers is the floored remainder, as \<open>mod\<close>
  on \<open>int\<close> is.
\<close>

definition seconds_until_next_15min :: "int \<Rightarrow> int" where
  "seconds_until_next_15min now =
     (let rem = now mod (15 * 60)
      in if rem = 0 then 0 else (15 * 60) - rem)"

section \<open>Errors, market data and the outside world\<close>

text \<open>
  Exceptions are values. \<open>FetchError\<close> is any exception raised inside
  \<^verbatim>\<open>fetch_ohlcv_df\<close> (network, API, rate limit, frame construction), \<open>IndexError\<close> is
  what \<^verbatim>\<open>df.iloc[-2]\<close> raises out of range, \<open>RequestError\<close> is any exception of
  \<^verbatim>\<open>requests.post\<close> and \<open>OSError\<close> any failure to open or write the log file. The
  string is the exception's message, which the source prints as \<^verbatim>\<open>{e}\<close>.
\<close>

datatype error = FetchError string | IndexError | RequestError string | OSError string

fun str_error :: "error \<Rightarrow> string" where
  "str_error (FetchError m) = m"
| "str_error IndexError = ''single positional indexer is out-of-bounds''"
| "str_error (RequestError m) = m"
| "str_error (OSError m) = m"

text \<open>A row of the data frame: the six columns, all cast to float.\<close>

record bar =
  bar_ts :: real
  bar_open :: real
  bar_high :: real
  bar_low :: real
  bar_close :: real
  bar_volume :: real

text \<open>
  Positional indexing as Python and pandas do it: a negative position counts from the
  end, and a position outside the sequence raises.
\<close>

definition iloc :: "'a list \<Rightarrow> int \<Rightarrow> error + 'a" where
  "iloc df i =
     (if 0 \<le> i
      then (if i < int (length df) then Inr (df ! nat i) else Inl IndexError)
      else (if - int (length df) \<le> i then Inr (df ! nat (int (length df) + i))
            else Inl IndexError))"

text \<open>Decimal text of an integer, as \<^verbatim>\<open>print\<close> shows a status code.\<close>

fun str_nat :: "nat \<Rightarrow> string" where
  "str_nat n =
     (if n < 10 then [char_of (48 + n)]
      else str_nat (n div 10) @ [char_of (48 + n mod 10)])"

definition str_int :: "int \<Rightarrow> string" where
  "str_int i = (if i < 0 then CHR ''-'' # str_nat (nat (- i)) else str_nat (nat i))"

text \<open>
  The program talks to an exchange, a webhook, a file and a clock. What they answer is
  not the program's to decide, so it is a parameter: a \<open>world\<close> gives the outcome of the
  \<open>n\<close>-th outside call. Every outside call reads the world at the state's \<open>tick\<close> and
  advances the tick by one, so that two calls never have to agree. The text of a float
  (\<^verbatim>\<open>{price}\<close>) and of a time (\<^verbatim>\<open>strftime\<close>) are left to the world as well.
\<close>

record world =
  exchange_fetch_ohlcv :: "nat \<Rightarrow> string \<Rightarrow> string \<Rightarrow> nat \<Rightarrow> error + bar list"
  requests_post :: "nat \<Rightarrow> string \<Rightarrow> error + int \<times> string"
  file_append :: "nat \<Rightarrow> string \<Rightarrow> error option"
  utc_now :: "nat \<Rightarrow> int"
  strftime_sec :: "int \<Rightarrow> string"
  strftime_min :: "int \<Rightarrow> string"
  str_float :: "real \<Rightarrow> string"

text \<open>
  What the program has done so far: the lines printed, the symbols requested from the
  exchange, the messages handed to \<^verbatim>\<open>requests.post\<close>, the chunks written to the log
  file and the sleeps taken.
\<close>

record state =
  tick :: nat
  console :: "string list"
  fetched :: "string list"
  posted :: "string list"
  logfile :: "string list"
  slept :: "real list"


definition TIMEFRAME :: string where
  "TIMEFRAME = ''15m''"

definition FETCH_LIMIT :: nat where
  "FETCH_LIMIT = 10"

definition INTER_PAIR_DELAY :: real where
  "INTER_PAIR_DELAY = 1.0"

definition print_line :: "string \<Rightarrow> state \<Rightarrow> state" where
  "print_line l s = s\<lparr>console := console s @ [l]\<rparr>"

definition sleep :: "real \<Rightarrow> state \<Rightarrow> state" where
  "sleep d s = s\<lparr>slept := slept s @ [d]\<rparr>"

section \<open>Notifier\<close>

text \<open>
  \<^verbatim>\<open>send_telegram\<close>: the post is inside \<^verbatim>\<open>try\<close>; a status other than 200 and an
  exception are both printed. The result is a sum like that of every other call, so that
  "nothing propagates" is a statement about the function and not about its type.
\<close>

definition send_telegram :: "world \<Rightarrow> string \<Rightarrow> state \<Rightarrow> (error + unit) \<times> state" where
  "send_telegram w text s =
     (let s1 = s\<lparr>tick := tick s + 1, posted := posted s @ [text]\<rparr>
      in case requests_post w (tick s) text of
           Inr (status_code, rtext) \<Rightarrow>
             if status_code \<noteq> 200
             then (Inr (), print_line (''Telegram send failed: '' @ str_int status_code
                                        @ '' '' @ rtext) s1)
             else (Inr (), s1)
         | Inl e \<Rightarrow> (Inr (), print_line (''Telegram error: '' @ str_error e) s1))"

text \<open>
  \<^verbatim>\<open>log_signal\<close>: reads the clock, then opens the file for appending and writes one
  chunk. Nothing is caught here, so a failure of the file is the function's result.
\<close>

definition log_line :: "string \<Rightarrow> string \<Rightarrow> string" where
  "log_line ts text = ''['' @ ts @ ''] '' @ text @ [CHR 0x0A]"

definition log_signal :: "world \<Rightarrow> string \<Rightarrow> state \<Rightarrow> (error + unit) \<times> state" where
  "log_signal w text s =
     (let ts = strftime_sec w (utc_now w (tick s));
          s1 = s\<lparr>tick := tick s + 1\<rparr>;
          s2 = s1\<lparr>tick := tick s1 + 1\<rparr>
      in case file_append w (tick s1) (log_line ts text) of
           Some e \<Rightarrow> (Inl e, s2)
         | None \<Rightarrow> (Inr (), s2\<lparr>logfile := logfile s2 @ [log_line ts text]\<rparr>))"

section \<open>Candle fetcher and per-pair analysis\<close>

text \<open>
  \<^verbatim>\<open>fetch_ohlcv_df\<close>: the exchange's rows become the rows of the frame; whatever fails
  on the way is the world's \<open>Inl\<close>.
\<close>

definition fetch_ohlcv_df :: "world \<Rightarrow> string \<Rightarrow> state \<Rightarrow> (error + bar list) \<times> state" where
  "fetch_ohlcv_df w symbol s =
     (exchange_fetch_ohlcv w (tick s) symbol TIMEFRAME FETCH_LIMIT,
      s\<lparr>tick := tick s + 1, fetched := fetched s @ [symbol]\<rparr>)"

type_synonym signal = "string \<times> string \<times> real"

definition analyze_pair :: "world \<Rightarrow> string \<Rightarrow> state \<Rightarrow> (error + signal list) \<times> state" where
  "analyze_pair w pair s =
     (case fetch_ohlcv_df w pair s of
        (Inl e, s1) \<Rightarrow>
          (Inr [], print_line (''['' @ pair @ ''] fetch error: '' @ str_error e) s1)
      | (Inr df, s1) \<Rightarrow>
          (case iloc df (- 2) of
             Inl e \<Rightarrow> (Inl e, s1)
           | Inr last_closed \<Rightarrow>
               (let candle = \<lparr>c_open = bar_open last_closed, c_high = bar_high last_closed,
                              c_low = bar_low last_closed, c_close = bar_close last_closed\<rparr>
                in (Inr (if is_hammer_candle candle
                         then [(''HAMMER'', ''LONG'', bar_close last_closed)]
                         else if is_shooting_star_candle candle
                         then [(''SHOOTING_STAR'', ''SHORT'', bar_close last_closed)]
                         else []),
                    s1))))"

section \<open>Driver: one pass over the pairs\<close>

definition hammer_msg :: "string \<Rightarrow> string \<Rightarrow> string \<Rightarrow> string" where
  "hammer_msg pair price ts =
     [CHR 0xF0, CHR 0x9F, CHR 0x9F, CHR 0xA2] @ '' <b>Hammer detected</b>'' @ [CHR 0x0A]
     @ ''Pair: '' @ pair @ [CHR 0x0A] @ ''Direction: LONG'' @ [CHR 0x0A]
     @ ''Price: '' @ price @ [CHR 0x0A] @ ''TF: '' @ TIMEFRAME @ [CHR 0x0A]
     @ ''Time: '' @ ts"

definition shooting_star_msg :: "string \<Rightarrow> string \<Rightarrow> string \<Rightarrow> string" where
  "shooting_star_msg pair price ts =
     [CHR 0xF0, CHR 0x9F, CHR 0x94, CHR 0xB4] @ '' <b>Shooting Star detected</b>''
     @ [CHR 0x0A]
     @ ''Pair: '' @ pair @ [CHR 0x0A] @ ''Direction: SHORT'' @ [CHR 0x0A]
     @ ''Price: '' @ price @ [CHR 0x0A] @ ''TF: '' @ TIMEFRAME @ [CHR 0x0A]
     @ ''Time: '' @ ts"

definition log_text :: "string \<Rightarrow> string \<Rightarrow> string \<Rightarrow> string \<Rightarrow> string \<Rightarrow> string" where
  "log_text pair typ direction price ts =
     pair @ '' | '' @ typ @ '' | '' @ direction @ '' | price='' @ price @ '' | time='' @ ts"

text \<open>
  The loop \<^verbatim>\<open>for typ, direction, price in signals\<close> of \<^verbatim>\<open>main\<close>: time stamp, message,
  console line, \<^verbatim>\<open>send_telegram\<close>, \<^verbatim>\<open>log_signal\<close>. An exception leaves the loop.
\<close>

fun notify_signals :: "world \<Rightarrow> string \<Rightarrow> signal list \<Rightarrow> state \<Rightarrow> (error + unit) \<times> state" where
  "notify_signals w pair [] s = (Inr (), s)"
| "notify_signals w pair ((typ, direction, price) # rest) s =
     (let ts = strftime_min w (utc_now w (tick s));
          s1 = s\<lparr>tick := tick s + 1\<rparr>;
          msg = (if typ = ''HAMMER'' then hammer_msg pair (str_float w price) ts
                 else shooting_star_msg pair (str_float w price) ts);
          s2 = print_line (''['' @ pair @ ''] SIGNAL -> '' @ typ @ '' @ ''
                           @ str_float w price) s1
      in case send_telegram w msg s2 of
           (Inl e, s3) \<Rightarrow> (Inl e, s3)
         | (Inr u, s3) \<Rightarrow>
             (case log_signal w (log_text pair typ direction (str_float w price) ts) s3 of
                (Inl e, s4) \<Rightarrow> (Inl e, s4)
              | (Inr u', s4) \<Rightarrow> notify_signals w pair rest s4))"

text \<open>
  The body of \<^verbatim>\<open>for pair in PAIRS\<close>: everything but the final sleep is inside
  \<^verbatim>\<open>try ... except Exception\<close>. (\<^verbatim>\<open>any_signal\<close> is assigned and never read.)
\<close>

definition scan_pair :: "world \<Rightarrow> string \<Rightarrow> state \<Rightarrow> state" where
  "scan_pair w pair s =
     sleep INTER_PAIR_DELAY
       (case analyze_pair w pair s of
          (Inl e, s1) \<Rightarrow> print_line (''['' @ pair @ ''] analyze error: '' @ str_error e) s1
        | (Inr signals, s1) \<Rightarrow>
            if signals \<noteq> []
            then (case notify_signals w pair signals s1 of
                    (Inl e, s2) \<Rightarrow>
                      print_line (''['' @ pair @ ''] analyze error: '' @ str_error e) s2
                  | (Inr u, s2) \<Rightarrow> s2)
            else print_line (''['' @ pair @ ''] No pattern.'') s1)"

fun scan_pairs :: "world \<Rightarrow> string list \<Rightarrow> state \<Rightarrow> state" where
  "scan_pairs w [] s = s"
| "scan_pairs w (pair # rest) s = scan_pairs w rest (scan_pair w pair s)"

section \<open>The log line as the specification words it\<close>

text \<open>
  The specification gives the text of a log entry as
  \<^verbatim>\<open>[<symbol>] | <PATTERN_KIND> | <DIRECTION> | price=<float> | time=<UTC string>\<close>.
  \<open>spec_log_text\<close> follows these words, to be compared with \<open>log_text\<close>, which follows
  the source.
\<close>

definition spec_log_text :: "string \<Rightarrow> string \<Rightarrow> string \<Rightarrow> string \<Rightarrow> string \<Rightarrow> string" where
  "spec_log_text symbol kind direction price ts =
     ''['' @ symbol @ ''] | '' @ kind @ '' | '' @ direction @ '' | price='' @ price
     @ '' | time='' @ ts"

section \<open>A concrete world\<close>

text \<open>
  One world for the examples: the exchange answers with a Hammer for ETH, fails for BCH,
  returns a single bar for SOL, a Shooting Star for TON and an unremarkable bar for LINK;
  the webhook answers 404; the log file can be written.
\<close>

definition demo_plain :: bar where
  "demo_plain = \<lparr>bar_ts = 0, bar_open = 10, bar_high = 10.5, bar_low = 9.5,
                  bar_close = 10.3, bar_volume = 1\<rparr>"

definition demo_hammer :: bar where
  "demo_hammer = \<lparr>bar_ts = 0, bar_open = 10, bar_high = 10.25, bar_low = 9,
                   bar_close = 10.2, bar_volume = 1\<rparr>"

definition demo_star :: bar where
  "demo_star = \<lparr>bar_ts = 0, bar_open = 10, bar_high = 11, bar_low = 9.75,
                 bar_close = 9.8, bar_volume = 1\<rparr>"

definition demo_world :: world where
  "demo_world =
     \<lparr>exchange_fetch_ohlcv = (\<lambda>n symbol timeframe limit.
          if symbol = ''ETH/USDT'' then Inr [demo_plain, demo_hammer, demo_plain]
          else if symbol = ''BCH/USDT'' then Inl (FetchError ''request timed out'')
          else if symbol = ''SOL/USDT'' then Inr [demo_plain]
          else if symbol = ''TON/USDT'' then Inr [demo_plain, demo_star, demo_plain]
          else Inr [demo_plain, demo_plain, demo_plain]),
      requests_post = (\<lambda>n text. Inr (404, ''Not Found'')),
      file_append = (\<lambda>n line. None),
      utc_now = (\<lambda>n. 1767226500 + int n),
      strftime_sec = (\<lambda>t. ''2026-01-01 00:15:02 UTC''),
      strftime_min = (\<lambda>t. ''2026-01-01 00:15 UTC''),
      str_float = (\<lambda>x. if x = 10.2 then ''10.2'' else ''9.8'')\<rparr>"

definition demo_state :: state where
  "demo_state = \<lparr>tick = 0, console = [], fetched = [], posted = [], logfile = [],
                  slept = []\<rparr>"

section \<open>Properties of the detectors\<close>





text \<open>
  C3. For every bar, whatever its four prices are (no relation between open, high, low
  and close is assumed), the Hammer predicate and the Shooting Star predicate are never
  both true.
\<close>

theorem hammer_shooting_star_exclusive:
  "\<not> (is_hammer_candle c \<and> is_shooting_star_candle c)"
proof
  assume both: "is_hammer_candle c \<and> is_shooting_star_candle c"
  define body where "body = \<bar>c_close c - c_open c\<bar>"
  define lower where "lower = min (c_open c) (c_close c) - c_low c"
  from both have nz: "body \<noteq> 0"
    by (auto simp: is_hammer_candle_def Let_def body_def split: if_splits)
  then have pos: "0 < body"
    by (simp add: body_def)
  from both nz have big: "body * 1.8 < lower"
    by (simp add: is_hammer_candle_def Let_def body_def lower_def)
  from both nz have small: "lower < body * 0.6"
    by (simp add: is_shooting_star_candle_def Let_def body_def lower_def)
  from pos have "body * 0.6 < body * 1.8"
    by simp
  with big small show False
    by linarith
qed

text \<open>
  C7. For the bar with open 100, high 100.5, low 90 and close 99 the Hammer detector
  returns true: the body is 1, the lower wick is 9 and the upper wick is
  \<open>100.5 - max 100 99 = 0.5\<close>.
\<close>

theorem is_hammer_candle_example:
  "is_hammer_candle \<lparr>c_open = 100, c_high = 100.5, c_low = 90, c_close = 99\<rparr>"
  by (simp add: is_hammer_candle_def Let_def)

section \<open>Properties of the scheduler\<close>

text \<open>
  C4. For every clock value \<open>t\<close> (integer seconds since the epoch), the wait \<open>w\<close> that
  \<^verbatim>\<open>seconds_until_next_15min\<close> returns satisfies \<open>0 \<le> w < 900\<close>, and \<open>t + w\<close> is a
  multiple of 900.
\<close>

theorem seconds_until_next_15min_boundary:
  "0 \<le> seconds_until_next_15min t \<and> seconds_until_next_15min t < 900 \<and>
   (t + seconds_until_next_15min t) mod 900 = 0"
proof -
  define r where "r = t mod 900"
  have r_range: "0 \<le> r" "r < 900"
    by (simp_all add: r_def)
  have w_def: "seconds_until_next_15min t = (if r = 0 then 0 else 900 - r)"
    by (simp add: seconds_until_next_15min_def Let_def r_def)
  have "t + (900 - r) = 900 * (t div 900 + 1)"
    using mult_div_mod_eq [of 900 t] by (simp add: r_def algebra_simps)
  then have "(t + (900 - r)) mod 900 = 0"
    by (simp only: mod_mult_self1_is_0)
  moreover have "r = 0 \<Longrightarrow> t mod 900 = 0"
    by (simp add: r_def)
  ultimately have "(t + seconds_until_next_15min t) mod 900 = 0"
    by (simp add: w_def)
  with r_range show ?thesis
    by (simp add: w_def)
qed

section \<open>Properties of the per-pair analysis\<close>

lemma iloc_minus2: "2 \<le> length xs \<Longrightarrow> iloc xs (- 2) = Inr (xs ! (length xs - 2))"
proof -
  assume len: "2 \<le> length xs"
  then have "nat (int (length xs) - 2) = length xs - 2"
    by linarith
  with len show ?thesis
    by (simp add: iloc_def)
qed


text \<open>
  C5. The per-pair analysis derives at most one signal, and a signal comes from exactly
  one bar, the second-from-newest row of the fetched frame: the result is the Hammer
  signal if that bar is a Hammer, else the Shooting Star signal if it is a Shooting Star,
  else no signal; the reference price is that bar's close.
\<close>

theorem analyze_pair_one_signal:
  "(\<forall>sigs. fst (analyze_pair w pair s) = Inr sigs \<longrightarrow> length sigs \<le> 1) \<and>
   (\<forall>df. exchange_fetch_ohlcv w (tick s) pair TIMEFRAME FETCH_LIMIT = Inr df \<and>
         2 \<le> length df \<longrightarrow>
      (let b = df ! (length df - 2);
           c = \<lparr>c_open = bar_open b, c_high = bar_high b, c_low = bar_low b,
                c_close = bar_close b\<rparr>
       in fst (analyze_pair w pair s) =
            Inr (if is_hammer_candle c then [(''HAMMER'', ''LONG'', bar_close b)]
                 else if is_shooting_star_candle c
                 then [(''SHOOTING_STAR'', ''SHORT'', bar_close b)]
                 else [])))"
proof (intro conjI allI impI)
  fix sigs
  assume "fst (analyze_pair w pair s) = Inr sigs"
  then show "length sigs \<le> 1"
    by (auto simp: analyze_pair_def fetch_ohlcv_df_def Let_def
        split: sum.splits if_splits)
next
  fix df
  assume h: "exchange_fetch_ohlcv w (tick s) pair TIMEFRAME FETCH_LIMIT = Inr df \<and>
    2 \<le> length df"
  then have "iloc df (- 2) = Inr (df ! (length df - 2))"
    by (simp add: iloc_minus2)
  with h show "let b = df ! (length df - 2);
           c = \<lparr>c_open = bar_open b, c_high = bar_high b, c_low = bar_low b,
                c_close = bar_close b\<rparr>
       in fst (analyze_pair w pair s) =
            Inr (if is_hammer_candle c then [(''HAMMER'', ''LONG'', bar_close b)]
                 else if is_shooting_star_candle c
                 then [(''SHOOTING_STAR'', ''SHORT'', bar_close b)]
                 else [])"
    by (simp add: analyze_pair_def fetch_ohlcv_df_def Let_def)
qed

theorem analyze_pair_one_signal_witness:
  "exchange_fetch_ohlcv demo_world (tick demo_state) ''ETH/USDT'' TIMEFRAME FETCH_LIMIT
     = Inr [demo_plain, demo_hammer, demo_plain] \<and>
   fst (analyze_pair demo_world ''ETH/USDT'' demo_state) = Inr [(''HAMMER'', ''LONG'', 10.2)] \<and>
   exchange_fetch_ohlcv demo_world (tick demo_state) ''TON/USDT'' TIMEFRAME FETCH_LIMIT
     = Inr [demo_plain, demo_star, demo_plain] \<and>
   fst (analyze_pair demo_world ''TON/USDT'' demo_state)
     = Inr [(''SHOOTING_STAR'', ''SHORT'', 9.8)] \<and>
   exchange_fetch_ohlcv demo_world (tick demo_state) ''LINK/USDT'' TIMEFRAME FETCH_LIMIT
     = Inr [demo_plain, demo_plain, demo_plain] \<and>
   fst (analyze_pair demo_world ''LINK/USDT'' demo_state) = Inr [] \<and>
   length [(''HAMMER'', ''LONG'', 10.2::real)] \<le> 1"
  using analyze_pair_one_signal [of demo_world "''ETH/USDT''" demo_state]
    analyze_pair_one_signal [of demo_world "''TON/USDT''" demo_state]
    analyze_pair_one_signal [of demo_world "''LINK/USDT''" demo_state]
  by (simp add: demo_world_def demo_plain_def demo_hammer_def demo_star_def
      is_hammer_candle_def is_shooting_star_candle_def Let_def)


section \<open>Properties of the driver\<close>


lemma send_telegram_keeps:
  assumes "send_telegram w text s = (r, s')"
  shows "fetched s' = fetched s" and "logfile s' = logfile s" and "tick s' = tick s + 1"
    and "r = Inr ()"
  using assms
  by (auto simp: send_telegram_def print_line_def Let_def split: sum.splits prod.splits if_splits)

lemma log_signal_keeps:
  assumes "log_signal w text s = (r, s')"
  shows "fetched s' = fetched s" and "tick s' = tick s + 2"
  using assms
  by (auto simp: log_signal_def Let_def split: option.splits)

lemma notify_signals_fetched:
  "notify_signals w pair sigs s = (r, s') \<Longrightarrow> fetched s' = fetched s"
proof (induction sigs arbitrary: s)
  case Nil
  then show ?case by simp
next
  case (Cons sg rest)
  obtain ty direction price where sg: "sg = (ty, direction, price)"
    by (cases sg) auto
  from Cons.prems show ?case
    by (auto simp: sg Let_def print_line_def split: prod.splits sum.splits
        dest!: send_telegram_keeps(1) log_signal_keeps(1) Cons.IH)
qed

lemma analyze_pair_keeps:
  assumes "analyze_pair w pair s = (r, s')"
  shows "fetched s' = fetched s @ [pair]" and "tick s' = tick s + 1"
    and "logfile s' = logfile s" and "posted s' = posted s" and "slept s' = slept s"
  using assms
  by (auto simp: analyze_pair_def fetch_ohlcv_df_def print_line_def Let_def
      split: sum.splits prod.splits if_splits)

lemma scan_pair_fetched: "fetched (scan_pair w pair s) = fetched s @ [pair]"
  by (auto simp: scan_pair_def sleep_def print_line_def split: prod.splits sum.splits
      dest!: analyze_pair_keeps(1) notify_signals_fetched)

lemma scan_pairs_fetched: "fetched (scan_pairs w ps s) = fetched s @ ps"
  by (induction ps arbitrary: s) (simp_all add: scan_pair_fetched)






lemma analyze_pair_signal_console:
  "analyze_pair w pair s = (Inr (sg # sigs), s') \<Longrightarrow> console s' = console s"
  by (auto simp: analyze_pair_def fetch_ohlcv_df_def Let_def
      split: sum.splits prod.splits if_splits)

lemma send_telegram_failed:
  assumes "case requests_post w (tick s) text of
             Inl e \<Rightarrow> True | Inr (status_code, rtext) \<Rightarrow> status_code \<noteq> 200"
  shows "\<exists>l. take 9 l = ''Telegram '' \<and>
     send_telegram w text s =
       (Inr (), s\<lparr>tick := tick s + 1, posted := posted s @ [text],
                   console := console s @ [l]\<rparr>)"
proof (cases "requests_post w (tick s) text")
  case (Inl e)
  then show ?thesis
    by (intro exI [of _ "''Telegram error: '' @ str_error e"])
      (simp add: send_telegram_def print_line_def)
next
  case (Inr r)
  obtain status_code rtext where r: "r = (status_code, rtext)"
    by (cases r) auto
  with Inr assms have "status_code \<noteq> 200"
    by simp
  with Inr r show ?thesis
    by (intro exI [of _ "''Telegram send failed: '' @ str_int status_code @ '' '' @ rtext"])
      (simp add: send_telegram_def print_line_def)
qed

text \<open>
  C8. If the webhook post fails (a status other than 200, or an exception of the
  transport), \<^verbatim>\<open>send_telegram\<close> catches the failure and prints it, nothing reaches the
  driver's handler (the console shows the signal line and the notifier's own line, and no
  analyze error), and the signal's line is appended to the log file afterwards, the file
  being writable; the pass goes on with the remaining pairs. For a pair scanned from
  state \<open>s\<close> the outside calls are: fetch at tick \<open>tick s\<close>, clock at \<open>tick s + 1\<close>, post
  at \<open>tick s + 2\<close>, clock at \<open>tick s + 3\<close>, file at \<open>tick s + 4\<close>.
\<close>

theorem failed_post_keeps_log_entry:
  assumes sig: "fst (analyze_pair w pair s) = Inr [(typ, direction, price)]"
    and post: "\<forall>text. case requests_post w (tick s + 2) text of
                        Inl e \<Rightarrow> True | Inr (status_code, rtext) \<Rightarrow> status_code \<noteq> 200"
    and append: "\<forall>line. file_append w (tick s + 4) line = None"
  shows "(\<exists>l. take 9 l = ''Telegram '' \<and>
       console (scan_pair w pair s) =
         console s @ [''['' @ pair @ ''] SIGNAL -> '' @ typ @ '' @ '' @ str_float w price, l]) \<and>
     logfile (scan_pair w pair s) =
       logfile s @ [''['' @ strftime_sec w (utc_now w (tick s + 3)) @ ''] ''
                    @ pair @ '' | '' @ typ @ '' | '' @ direction
                    @ '' | price='' @ str_float w price
                    @ '' | time='' @ strftime_min w (utc_now w (tick s + 1)) @ [CHR 0x0A]] \<and>
     fetched (scan_pairs w (pair # rest) s) = fetched s @ pair # rest"
proof -
  obtain s1 where a: "analyze_pair w pair s = (Inr [(typ, direction, price)], s1)"
    using sig by (cases "analyze_pair w pair s") simp
  have t1: "tick s1 = tick s + 1" and l1: "logfile s1 = logfile s"
    using analyze_pair_keeps [OF a] by simp_all
  have c1: "console s1 = console s"
    using a by (rule analyze_pair_signal_console)
  let ?ts = "strftime_min w (utc_now w (tick s1))"
  let ?m = "if typ = ''HAMMER'' then hammer_msg pair (str_float w price) ?ts
            else shooting_star_msg pair (str_float w price) ?ts"
  let ?s2 = "print_line (''['' @ pair @ ''] SIGNAL -> '' @ typ @ '' @ ''
                           @ str_float w price) (s1\<lparr>tick := tick s1 + 1\<rparr>)"
  let ?text = "log_text pair typ direction (str_float w price) ?ts"
  have t2: "tick ?s2 = tick s + 2"
    by (simp add: print_line_def t1)
  from post have "case requests_post w (tick ?s2) ?m of
             Inl e \<Rightarrow> True | Inr (status_code, rtext) \<Rightarrow> status_code \<noteq> 200"
    unfolding t2 by (rule spec)
  from send_telegram_failed [OF this] obtain l where l: "take 9 l = ''Telegram ''"
    and st: "send_telegram w ?m ?s2 =
       (Inr (), ?s2\<lparr>tick := tick ?s2 + 1, posted := posted ?s2 @ [?m],
                   console := console ?s2 @ [l]\<rparr>)"
    by blast
  let ?s3 = "?s2\<lparr>tick := tick ?s2 + 1, posted := posted ?s2 @ [?m],
                   console := console ?s2 @ [l]\<rparr>"
  let ?line = "log_line (strftime_sec w (utc_now w (tick s + 3))) ?text"
  let ?s4 = "?s3\<lparr>tick := tick s + 5, logfile := logfile s @ [?line]\<rparr>"
  have lg: "log_signal w ?text ?s3 = (Inr (), ?s4)"
    using append by (simp add: log_signal_def Let_def print_line_def t1 l1 eval_nat_numeral)
  have sp: "scan_pair w pair s = sleep INTER_PAIR_DELAY ?s4"
    by (simp only: scan_pair_def a notify_signals.simps Let_def st lg prod.case sum.case
        list.simps simp_thms if_True)
  have "console (scan_pair w pair s) =
         console s @ [''['' @ pair @ ''] SIGNAL -> '' @ typ @ '' @ '' @ str_float w price, l]"
    by (simp add: sp sleep_def print_line_def c1)
  with l have A: "\<exists>l. take 9 l = ''Telegram '' \<and>
       console (scan_pair w pair s) =
         console s @ [''['' @ pair @ ''] SIGNAL -> '' @ typ @ '' @ '' @ str_float w price, l]"
    by blast
  have B: "logfile (scan_pair w pair s) =
       logfile s @ [''['' @ strftime_sec w (utc_now w (tick s + 3)) @ ''] ''
                    @ pair @ '' | '' @ typ @ '' | '' @ direction
                    @ '' | price='' @ str_float w price
                    @ '' | time='' @ strftime_min w (utc_now w (tick s + 1)) @ [CHR 0x0A]]"
    by (simp add: sp sleep_def log_line_def log_text_def t1)
  have C: "fetched (scan_pairs w (pair # rest) s) = fetched s @ pair # rest"
    by (rule scan_pairs_fetched)
  from A B C show ?thesis
    by (intro conjI)
qed


theorem failed_post_keeps_log_entry_witness:
  "fst (analyze_pair demo_world ''ETH/USDT'' demo_state) = Inr [(''HAMMER'', ''LONG'', 10.2)] \<and>
   requests_post demo_world (tick demo_state + 2) ''any text'' = Inr (404, ''Not Found'') \<and>
   file_append demo_world (tick demo_state + 4) ''any line'' = None \<and>
   logfile (scan_pair demo_world ''ETH/USDT'' demo_state) =
     [''[2026-01-01 00:15:02 UTC] ETH/USDT | HAMMER | LONG | price=10.2 | time=2026-01-01 00:15 UTC''
      @ [CHR 0x0A]]"
proof -
  have sig: "fst (analyze_pair demo_world ''ETH/USDT'' demo_state)
      = Inr [(''HAMMER'', ''LONG'', 10.2)]"
    by (simp add: analyze_pair_def fetch_ohlcv_df_def iloc_def Let_def demo_world_def
        demo_plain_def demo_hammer_def is_hammer_candle_def)
  have post: "\<forall>text. case requests_post demo_world (tick demo_state + 2) text of
                Inl e \<Rightarrow> True | Inr (status_code, rtext) \<Rightarrow> status_code \<noteq> 200"
    by (simp add: demo_world_def)
  have append: "\<forall>line. file_append demo_world (tick demo_state + 4) line = None"
    by (simp add: demo_world_def)
  note t = failed_post_keeps_log_entry [OF sig post append, where rest = "[]"]
  have lg: "logfile (scan_pair demo_world ''ETH/USDT'' demo_state) =
     [''[2026-01-01 00:15:02 UTC] ETH/USDT | HAMMER | LONG | price=10.2 | time=2026-01-01 00:15 UTC''
      @ [CHR 0x0A]]"
    unfolding t [THEN conjunct2, THEN conjunct1]
    by (simp add: demo_world_def demo_state_def)
  have p: "requests_post demo_world (tick demo_state + 2) ''any text'' = Inr (404, ''Not Found'')"
    by (simp add: demo_world_def)
  have f: "file_append demo_world (tick demo_state + 4) ''any line'' = None"
    by (simp add: demo_world_def)
  from sig p f lg show ?thesis
    by (intro conjI)
qed

lemma analyze_pair_cases:
  "(\<exists>e. fst (analyze_pair w pair s) = Inl e) \<or>
   fst (analyze_pair w pair s) = Inr [] \<or>
   (\<exists>x. fst (analyze_pair w pair s) = Inr [(''HAMMER'', ''LONG'', x)]) \<or>
   (\<exists>x. fst (analyze_pair w pair s) = Inr [(''SHOOTING_STAR'', ''SHORT'', x)])"
  by (simp add: analyze_pair_def fetch_ohlcv_df_def Let_def split: sum.splits)

lemma notify_single_logfile:
  assumes "notify_signals w pair [(ty, direction, price)] s = (r, s')"
  shows "logfile s' = logfile s \<or>
     logfile s' = logfile s @
       [log_line (strftime_sec w (utc_now w (tick s + 2)))
          (log_text pair ty direction (str_float w price)
             (strftime_min w (utc_now w (tick s))))]"
  using assms
  by (auto simp: Let_def send_telegram_def log_signal_def print_line_def eval_nat_numeral
      split: sum.splits prod.splits option.splits if_splits)

lemma scan_pair_logfile:
  "logfile (scan_pair w pair s) = logfile s \<or>
   (\<exists>ty direction price n n'.
      (ty, direction) \<in> {(''HAMMER'', ''LONG''), (''SHOOTING_STAR'', ''SHORT'')} \<and>
      logfile (scan_pair w pair s) = logfile s @
        [log_line (strftime_sec w (utc_now w n'))
           (log_text pair ty direction (str_float w price) (strftime_min w (utc_now w n)))])"
proof -
  obtain r s1 where a: "analyze_pair w pair s = (r, s1)"
    by (cases "analyze_pair w pair s") auto
  have l1: "logfile s1 = logfile s"
    using analyze_pair_keeps(3) [OF a] .
  from analyze_pair_cases [of w pair s] a
  consider (err) e where "r = Inl e" | (none) "r = Inr []"
    | (sig) ty direction x where "r = Inr [(ty, direction, x)]"
        "(ty, direction) \<in> {(''HAMMER'', ''LONG''), (''SHOOTING_STAR'', ''SHORT'')}"
    by auto
  then show ?thesis
  proof cases
    case err
    then show ?thesis
      by (simp add: scan_pair_def a sleep_def print_line_def l1)
  next
    case none
    then show ?thesis
      by (simp add: scan_pair_def a sleep_def print_line_def l1)
  next
    case sig
    obtain r2 s2 where n: "notify_signals w pair [(ty, direction, x)] s1 = (r2, s2)"
      by (cases "notify_signals w pair [(ty, direction, x)] s1") auto
    have "scan_pair w pair s =
        sleep INTER_PAIR_DELAY
          (case r2 of
             Inl e \<Rightarrow> print_line (''['' @ pair @ ''] analyze error: '' @ str_error e) s2
           | Inr u \<Rightarrow> s2)"
      by (simp only: scan_pair_def a sig(1) n prod.case sum.case list.simps simp_thms if_True)
    then have sp: "logfile (scan_pair w pair s) = logfile s2"
      by (simp add: sleep_def print_line_def split: sum.splits)
    from notify_single_logfile [OF n] show ?thesis
    proof
      assume "logfile s2 = logfile s1"
      then show ?thesis by (simp add: sp l1)
    next
      assume "logfile s2 = logfile s1 @
       [log_line (strftime_sec w (utc_now w (tick s1 + 2)))
          (log_text pair ty direction (str_float w x)
             (strftime_min w (utc_now w (tick s1))))]"
      with sig(2) show ?thesis
        unfolding sp l1 by blast
    qed
  qed
qed

lemma scan_pairs_logfile:
  assumes "\<And>pair s. pair \<in> set ps \<Longrightarrow>
     \<exists>new. logfile (scan_pair w pair s) = logfile s @ new \<and> (\<forall>line\<in>set new. Q pair line)"
  shows "\<exists>new. logfile (scan_pairs w ps s) = logfile s @ new \<and>
     (\<forall>line\<in>set new. \<exists>pair\<in>set ps. Q pair line)"
  using assms
proof (induction ps arbitrary: s)
  case Nil
  show ?case by simp
next
  case (Cons p ps)
  from Cons.prems [of p s] obtain new0
    where n0: "logfile (scan_pair w p s) = logfile s @ new0" "\<forall>line\<in>set new0. Q p line"
    by auto
  have "\<exists>new. logfile (scan_pairs w ps (scan_pair w p s)) = logfile (scan_pair w p s) @ new \<and>
     (\<forall>line\<in>set new. \<exists>pair\<in>set ps. Q pair line)"
    by (rule Cons.IH) (simp add: Cons.prems)
  then obtain new1
    where n1: "logfile (scan_pairs w ps (scan_pair w p s)) = logfile (scan_pair w p s) @ new1"
      "\<forall>line\<in>set new1. \<exists>pair\<in>set ps. Q pair line"
    by auto
  have "logfile (scan_pairs w (p # ps) s) = logfile s @ (new0 @ new1)"
    by (simp add: n0(1) n1(1))
  moreover have "\<forall>line\<in>set (new0 @ new1). \<exists>pair\<in>set (p # ps). Q pair line"
    using n0(2) n1(2) by auto
  ultimately show ?case
    by blast
qed

lemma demo_eth_logfile:
  "logfile (scan_pairs demo_world [''ETH/USDT''] demo_state) =
     [''[2026-01-01 00:15:02 UTC] ETH/USDT | HAMMER | LONG | price=10.2 | time=2026-01-01 00:15 UTC''
      @ [CHR 0x0A]]"
  by (simp add: scan_pair_def analyze_pair_def fetch_ohlcv_df_def iloc_def Let_def
      demo_world_def demo_state_def demo_plain_def demo_hammer_def is_hammer_candle_def
      send_telegram_def log_signal_def print_line_def sleep_def log_line_def log_text_def
      hammer_msg_def)

text \<open>
  C9, as amended. Every chunk appended to the log file during a pass has the form
  \<^verbatim>\<open>[<send time>] <symbol> | <PATTERN_KIND> | <DIRECTION> | price=<float> | time=<UTC string>\<close>
  followed by a newline: the bracketed time stamp of \<^verbatim>\<open>log_signal\<close>, a space, and the
  text built by the driver, in which the pair symbol stands bare (no square brackets);
  the symbol is one of the scanned pairs and the kind and direction are HAMMER, LONG or
  SHOOTING_STAR, SHORT. The counterexample shows the entry written for a Hammer on
  ETH/USDT, which differs from the bracketed form of the specification.
\<close>

theorem log_lines_format:
  "\<exists>new. logfile (scan_pairs w ps s) = logfile s @ new \<and>
     (\<forall>line\<in>set new. \<exists>pair\<in>set ps. \<exists>ty direction price n n'.
        (ty, direction) \<in> {(''HAMMER'', ''LONG''), (''SHOOTING_STAR'', ''SHORT'')} \<and>
        line = ''['' @ strftime_sec w (utc_now w n') @ ''] ''
               @ pair @ '' | '' @ ty @ '' | '' @ direction
               @ '' | price='' @ str_float w price
               @ '' | time='' @ strftime_min w (utc_now w n) @ [CHR 0x0A])"
proof (rule scan_pairs_logfile)
  fix pair s
  from scan_pair_logfile [of w pair s]
  show "\<exists>new. logfile (scan_pair w pair s) = logfile s @ new \<and>
     (\<forall>line\<in>set new. \<exists>ty direction price n n'.
        (ty, direction) \<in> {(''HAMMER'', ''LONG''), (''SHOOTING_STAR'', ''SHORT'')} \<and>
        line = ''['' @ strftime_sec w (utc_now w n') @ ''] ''
               @ pair @ '' | '' @ ty @ '' | '' @ direction
               @ '' | price='' @ str_float w price
               @ '' | time='' @ strftime_min w (utc_now w n) @ [CHR 0x0A])"
  proof
    assume "logfile (scan_pair w pair s) = logfile s"
    then show ?thesis
      by (intro exI [of _ "[]"]) simp
  next
    assume "\<exists>ty direction price n n'.
      (ty, direction) \<in> {(''HAMMER'', ''LONG''), (''SHOOTING_STAR'', ''SHORT'')} \<and>
      logfile (scan_pair w pair s) = logfile s @
        [log_line (strftime_sec w (utc_now w n'))
           (log_text pair ty direction (str_float w price) (strftime_min w (utc_now w n)))]"
    then obtain ty direction price n n' where
      k: "(ty, direction) \<in> {(''HAMMER'', ''LONG''), (''SHOOTING_STAR'', ''SHORT'')}"
      and e: "logfile (scan_pair w pair s) = logfile s @
        [log_line (strftime_sec w (utc_now w n'))
           (log_text pair ty direction (str_float w price) (strftime_min w (utc_now w n)))]"
      by blast
    have f: "log_line (strftime_sec w (utc_now w n'))
           (log_text pair ty direction (str_float w price) (strftime_min w (utc_now w n)))
        = ''['' @ strftime_sec w (utc_now w n') @ ''] ''
               @ pair @ '' | '' @ ty @ '' | '' @ direction
               @ '' | price='' @ str_float w price
               @ '' | time='' @ strftime_min w (utc_now w n) @ [CHR 0x0A]"
      by (simp add: log_line_def log_text_def)
    show ?thesis
      apply (rule exI [of _ "[log_line (strftime_sec w (utc_now w n'))
           (log_text pair ty direction (str_float w price) (strftime_min w (utc_now w n)))]"])
      using k e f by (simp only: set_simps ball_simps simp_thms) blast
  qed
qed

theorem log_lines_format_witness:
  "''[2026-01-01 00:15:02 UTC] ETH/USDT | HAMMER | LONG | price=10.2 | time=2026-01-01 00:15 UTC''
      @ [CHR 0x0A] \<in> set (logfile (scan_pairs demo_world [''ETH/USDT''] demo_state)) \<and>
   (\<exists>pair\<in>set [''ETH/USDT'']. \<exists>ty direction price n n'.
      (ty, direction) \<in> {(''HAMMER'', ''LONG''), (''SHOOTING_STAR'', ''SHORT'')} \<and>
      ''[2026-01-01 00:15:02 UTC] ETH/USDT | HAMMER | LONG | price=10.2 | time=2026-01-01 00:15 UTC''
        @ [CHR 0x0A]
        = ''['' @ strftime_sec demo_world (utc_now demo_world n') @ ''] ''
               @ pair @ '' | '' @ ty @ '' | '' @ direction
               @ '' | price='' @ str_float demo_world price
               @ '' | time='' @ strftime_min demo_world (utc_now demo_world n) @ [CHR 0x0A])"
proof -
  let ?line = "''[2026-01-01 00:15:02 UTC] ETH/USDT | HAMMER | LONG | price=10.2 | time=2026-01-01 00:15 UTC''
      @ [CHR 0x0A]"
  have "logfile demo_state = []"
    by (simp add: demo_state_def)
  with log_lines_format [of demo_world "[''ETH/USDT'']" demo_state]
  have "\<forall>line\<in>set (logfile (scan_pairs demo_world [''ETH/USDT''] demo_state)).
     \<exists>pair\<in>set [''ETH/USDT'']. \<exists>ty direction price n n'.
        (ty, direction) \<in> {(''HAMMER'', ''LONG''), (''SHOOTING_STAR'', ''SHORT'')} \<and>
        line = ''['' @ strftime_sec demo_world (utc_now demo_world n') @ ''] ''
               @ pair @ '' | '' @ ty @ '' | '' @ direction
               @ '' | price='' @ str_float demo_world price
               @ '' | time='' @ strftime_min demo_world (utc_now demo_world n) @ [CHR 0x0A]"
    by (simp only: append_Nil) blast
  moreover have m: "?line \<in> set (logfile (scan_pairs demo_world [''ETH/USDT''] demo_state))"
    by (simp only: demo_eth_logfile list.set insertI1)
  ultimately show ?thesis
    by blast
qed

theorem log_line_format_counterexample:
  "logfile (scan_pairs demo_world [''ETH/USDT''] demo_state) =
     [''[2026-01-01 00:15:02 UTC] ETH/USDT | HAMMER | LONG | price=10.2 | time=2026-01-01 00:15 UTC''
      @ [CHR 0x0A]] \<and>
   logfile (scan_pairs demo_world [''ETH/USDT''] demo_state) \<noteq>
     [log_line ''2026-01-01 00:15:02 UTC''
        (spec_log_text ''ETH/USDT'' ''HAMMER'' ''LONG'' ''10.2'' ''2026-01-01 00:15 UTC'')]"
  unfolding demo_eth_logfile by (simp add: log_line_def spec_log_text_def)

end
